theory Spec2Isabelle
  imports Main "HOL-Library.Sublist"
begin

section \<open>The log sink server of \<open>server.py\<close>\<close>

text \<open>
  \<open>server.py\<close> is one request handler, \<open>Handler.do_POST\<close>, built by \<open>make_handler\<close> around
  the configured endpoint, and a main block that reads three command-line options. The
  handler compares \<open>self.path\<close> with the endpoint, reads the body from \<open>self.rfile\<close>, appends
  it to the file \<open>LOG_FILE\<close> and answers through \<open>send_response\<close> and \<open>end_headers\<close>.

  The embedding passes the state explicitly: the handler object (\<open>self\<close>) and the environment
  of the process (files, disk, memory) go in, and come out with the result of the call.
  A result is a normal return, a raised exception, or no return at all (a blocked read).
\<close>

subsection \<open>Values, exceptions and results\<close>

text \<open>
  A Python \<open>bytes\<close> object is a sequence of octets; \<^typ>\<open>char\<close> is the type of the 256
  octets. A request header value is a \<open>str\<close> decoded from ISO-8859-1 by the HTTP library, so
  each of its characters is one \<^typ>\<open>char\<close> too.
\<close>

type_synonym bytes = "char list"

datatype exn = ValueError | OverflowError | MemoryError | OSError | SystemExit nat

datatype 'a result = Returned 'a | Raised exn | Blocked

text \<open>The argument of \<open>int(...)\<close> in the handler is a \<open>str\<close> (the header) or the \<open>int\<close> default.\<close>

datatype pyval = PyInt int | PyStr string

subsection \<open>The built-in \<open>int\<close>\<close>

text \<open>
  \<open>int(s)\<close> for a \<open>str\<close> in base 10, as CPython parses it: white space on both sides is
  skipped, one sign is allowed, then digits with single underscores between them; anything
  else is a \<open>ValueError\<close>. The two non-ASCII spaces of ISO-8859-1 (\<open>0x85\<close>, \<open>0xA0\<close>) count as
  white space, the control characters \<open>0x1C\<close> to \<open>0x1F\<close> do not. More than
  \<open>max_str_digits\<close> digits are refused (the interpreter's default limit).
\<close>

definition is_space :: "char \<Rightarrow> bool" where
  "is_space c \<longleftrightarrow>
     c \<in> set [CHR 0x09, CHR 0x0A, CHR 0x0B, CHR 0x0C, CHR 0x0D, CHR 0x20, CHR 0x85, CHR 0xA0]"

definition is_digit :: "char \<Rightarrow> bool" where
  "is_digit c \<longleftrightarrow> c \<in> set ''0123456789''"

definition digit_value :: "char \<Rightarrow> int" where
  "digit_value c = int (of_char c) - 48"

definition max_str_digits :: nat where
  "max_str_digits = 4300"

text \<open>
  The scan of the digit part keeps the previous character, as the C loop does: an
  underscore may not come first, last, or after another underscore, and the part may not
  be empty.
\<close>

fun digits_ok :: "char option \<Rightarrow> string \<Rightarrow> bool" where
  "digits_ok prev [] = (case prev of None \<Rightarrow> False | Some p \<Rightarrow> p \<noteq> CHR ''_'')"
| "digits_ok prev (c # cs) =
     (if c = CHR ''_''
      then (case prev of None \<Rightarrow> False | Some p \<Rightarrow> p \<noteq> CHR ''_'' \<and> digits_ok (Some c) cs)
      else digits_ok (Some c) cs)"

definition decimal :: "string \<Rightarrow> int" where
  "decimal ds = fold (\<lambda>c a. 10 * a + digit_value c) ds 0"

definition strip_sign :: "string \<Rightarrow> bool \<times> string" where
  "strip_sign s =
     (case s of
        [] \<Rightarrow> (False, [])
      | c # cs \<Rightarrow>
          if c = CHR ''-'' then (True, cs)
          else if c = CHR ''+'' then (False, cs)
          else (False, s))"

definition int_str :: "string \<Rightarrow> exn + int" where
  "int_str s =
     (let (neg, u) = strip_sign (dropWhile is_space s);
          part = takeWhile (\<lambda>c. is_digit c \<or> c = CHR ''_'') u;
          rest = dropWhile (\<lambda>c. is_digit c \<or> c = CHR ''_'') u;
          ds = filter is_digit part
      in if \<not> digits_ok None part then Inl ValueError
         else if \<not> list_all is_space rest then Inl ValueError
         else if max_str_digits < length ds then Inl ValueError
         else Inr (if neg then - decimal ds else decimal ds))"

definition int_py :: "pyval \<Rightarrow> exn + int" where
  "int_py v = (case v of PyInt i \<Rightarrow> Inr i | PyStr s \<Rightarrow> int_str s)"

subsection \<open>The handler object\<close>

text \<open>
  \<open>self.rfile\<close> is a buffered reader on the connection. \<open>pending\<close> are the bytes the client
  sends that have not been read yet, \<open>eof\<close> says whether the client closes its side after
  them, and \<open>alloc_max\<close> is the largest buffer the interpreter can allocate for a read.
\<close>

record stream =
  pending :: bytes
  eof :: bool
  alloc_max :: nat

text \<open>
  What the handler writes to the connection. \<open>do_POST\<close> calls \<open>send_response\<close> and
  \<open>end_headers\<close> only; a response body would be a write to \<open>self.wfile\<close>. Writing to the
  connection is taken to succeed.
\<close>

datatype event = Send_response nat | End_headers | Wfile_write bytes

text \<open>
  \<open>self.headers.get\<close> looks a header up by name; \<open>headers\<close> is that lookup, \<open>path\<close> is
  \<open>self.path\<close> as the HTTP library has set it from the request line. It is not always the
  request target of the client: see \<open>parse_path\<close> below.
\<close>

record handler =
  path :: string
  headers :: "string \<rightharpoonup> string"
  rfile :: stream
  wfile :: "event list"

text \<open>
  Before it calls \<open>do_POST\<close>, the HTTP library (\<open>parse_request\<close>) stores the request target in
  \<open>self.path\<close>, and when the target starts with \<open>//\<close> it replaces all its leading slashes
  by one: \<open>self.path = '/' + self.path.lstrip('/')\<close>.
\<close>

definition parse_path :: "string \<Rightarrow> string" where
  "parse_path target =
     (if take 2 target = ''//'' then CHR ''/'' # dropWhile (\<lambda>c. c = CHR ''/'') target
      else target)"

definition headers_get :: "(string \<rightharpoonup> string) \<Rightarrow> string \<Rightarrow> pyval \<Rightarrow> pyval" where
  "headers_get hs name failobj = (case hs name of None \<Rightarrow> failobj | Some v \<Rightarrow> PyStr v)"

text \<open>
  \<open>rfile.read(n)\<close>: a length outside the index range, or too large for any \<open>bytes\<close> object,
  is an \<open>OverflowError\<close>; a negative length other than \<open>-1\<close> is a \<open>ValueError\<close>; \<open>-1\<close> reads
  to the end of the stream. Otherwise the reader allocates a buffer of \<open>n\<close> bytes, a
  \<open>MemoryError\<close> if it cannot, and returns \<open>n\<close> bytes once they have arrived, fewer if the
  stream ends first; it waits for ever if neither happens.
\<close>

definition ssize_max :: int where
  "ssize_max = 2 ^ 63 - 1"

definition rfile_read :: "stream \<Rightarrow> int \<Rightarrow> bytes result \<times> stream" where
  "rfile_read s n =
     (if n < - ssize_max - 1 \<or> ssize_max - 33 < n then (Raised OverflowError, s)
      else if n < - 1 then (Raised ValueError, s)
      else if n = - 1 then
        (if alloc_max s < length (pending s) then (Raised MemoryError, s)
         else if eof s then (Returned (pending s), s\<lparr>pending := []\<rparr>)
         else (Blocked, s))
      else if alloc_max s < nat n then (Raised MemoryError, s)
      else if nat n \<le> length (pending s) then
        (Returned (take (nat n) (pending s)), s\<lparr>pending := drop (nat n) (pending s)\<rparr>)
      else if eof s then (Returned (pending s), s\<lparr>pending := []\<rparr>)
      else (Blocked, s))"

definition send_response :: "handler \<Rightarrow> nat \<Rightarrow> handler" where
  "send_response self code = self\<lparr>wfile := wfile self @ [Send_response code]\<rparr>"

definition end_headers :: "handler \<Rightarrow> handler" where
  "end_headers self = self\<lparr>wfile := wfile self @ [End_headers]\<rparr>"

text \<open>The status codes and the body bytes of what has been written to the connection.\<close>

fun statuses :: "event list \<Rightarrow> nat list" where
  "statuses [] = []"
| "statuses (Send_response code # evs) = code # statuses evs"
| "statuses (ev # evs) = statuses evs"

fun response_body :: "event list \<Rightarrow> bytes" where
  "response_body [] = []"
| "response_body (Wfile_write bs # evs) = bs @ response_body evs"
| "response_body (ev # evs) = response_body evs"

subsection \<open>The file system\<close>

text \<open>
  \<open>files\<close> maps a file name to its content, \<open>writable\<close> says whether a file can be opened
  for writing, and \<open>disk_free\<close> is the number of bytes the disk still takes. A write that
  does not fit leaves the part that did fit in the file and raises \<open>OSError\<close>.
\<close>

record env =
  files :: "string \<rightharpoonup> bytes"
  writable :: "string \<Rightarrow> bool"
  disk_free :: nat

definition LOG_FILE :: string where
  "LOG_FILE = ''received_logs.txt''"

definition content :: "env \<Rightarrow> string \<Rightarrow> bytes" where
  "content e name = (case files e name of None \<Rightarrow> [] | Some bs \<Rightarrow> bs)"

definition open_ab :: "env \<Rightarrow> string \<Rightarrow> exn + env" where
  "open_ab e name =
     (if writable e name then Inr (e\<lparr>files := (files e)(name \<mapsto> content e name)\<rparr>)
      else Inl OSError)"

definition file_write :: "env \<Rightarrow> string \<Rightarrow> bytes \<Rightarrow> unit result \<times> env" where
  "file_write e name bs =
     (if length bs \<le> disk_free e
      then (Returned (),
            e\<lparr>files := (files e)(name \<mapsto> content e name @ bs),
              disk_free := disk_free e - length bs\<rparr>)
      else (Raised OSError,
            e\<lparr>files := (files e)(name \<mapsto> content e name @ take (disk_free e) bs),
              disk_free := 0\<rparr>))"

definition endswith :: "bytes \<Rightarrow> bytes \<Rightarrow> bool" where
  "endswith bs sfx \<longleftrightarrow>
     length sfx \<le> length bs \<and> drop (length bs - length sfx) bs = sfx"

subsection \<open>\<open>Handler.do_POST\<close>\<close>

text \<open>
  Lines 22 to 25, the \<open>with\<close> block: open in mode \<open>'ab'\<close>, write the data, write a newline
  if the data does not end with one. An exception leaves the block at once.
\<close>

definition append_log :: "env \<Rightarrow> bytes \<Rightarrow> unit result \<times> env" where
  "append_log e data =
     (case open_ab e LOG_FILE of
        Inl x \<Rightarrow> (Raised x, e)
      | Inr e1 \<Rightarrow>
          (case file_write e1 LOG_FILE data of
             (Returned u, e2) \<Rightarrow>
               if \<not> endswith data [CHR 0x0A] then file_write e2 LOG_FILE [CHR 0x0A]
               else (Returned (), e2)
           | (r, e2) \<Rightarrow> (r, e2)))"

text \<open>
  Lines 20 and 21: the length is \<open>int\<close> of the \<open>Content-Length\<close> header, or of the default
  \<open>0\<close> when there is no such header, and the data are read from \<open>self.rfile\<close>.
\<close>

definition read_body :: "handler \<Rightarrow> bytes result \<times> handler" where
  "read_body self =
     (case int_py (headers_get (headers self) ''Content-Length'' (PyInt 0)) of
        Inl x \<Rightarrow> (Raised x, self)
      | Inr len \<Rightarrow>
          (case rfile_read (rfile self) len of (r, rf) \<Rightarrow> (r, self\<lparr>rfile := rf\<rparr>)))"

definition do_POST :: "string \<Rightarrow> handler \<Rightarrow> env \<Rightarrow> unit result \<times> handler \<times> env" where
  "do_POST endpoint self e =
     (if path self \<noteq> endpoint then (Returned (), end_headers (send_response self 404), e)
      else
        case read_body self of
          (Returned data, self1) \<Rightarrow>
            (case append_log e data of
               (Returned u, e1) \<Rightarrow> (Returned (), end_headers (send_response self1 204), e1)
             | (Raised x, e1) \<Rightarrow> (Raised x, self1, e1)
             | (Blocked, e1) \<Rightarrow> (Blocked, self1, e1))
        | (Raised x, self1) \<Rightarrow> (Raised x, self1, e)
        | (Blocked, self1) \<Rightarrow> (Blocked, self1, e))"

definition make_handler :: "string \<Rightarrow> handler \<Rightarrow> env \<Rightarrow> unit result \<times> handler \<times> env" where
  "make_handler endpoint = do_POST endpoint"

subsection \<open>The server loop and the command line\<close>

text \<open>
  \<open>serve_forever\<close> handles the requests one after the other, each with a handler object of
  its own. The server reports an exception of a handler and goes on with the next request; a
  handler that does not return stops the loop. The result lists what each handled request
  came to, with the environment after the last one.
\<close>

fun serve :: "(handler \<Rightarrow> env \<Rightarrow> unit result \<times> handler \<times> env) \<Rightarrow> handler list \<Rightarrow> env
    \<Rightarrow> (unit result \<times> handler) list \<times> env" where
  "serve handle [] e = ([], e)"
| "serve handle (self # rest) e =
     (case handle self e of
        (Blocked, self1, e1) \<Rightarrow> ([(Blocked, self1)], e1)
      | (r, self1, e1) \<Rightarrow>
          (case serve handle rest e1 of (rs, e2) \<Rightarrow> ((r, self1) # rs, e2)))"

text \<open>
  The three \<open>add_argument\<close> calls of the main block. \<open>given\<close> is the value that the command
  line binds to an option, if it has one; how \<open>argparse\<close> splits the command line is not part
  of this program, and characters beyond ISO-8859-1 are not represented. \<open>--port\<close> has
  \<open>type=int\<close>: a value that \<open>int\<close> refuses ends the process with exit status 2. A default is
  taken as it is.
\<close>

record args =
  args_host :: string
  args_port :: int
  args_endpoint :: string

definition parse_args :: "(string \<rightharpoonup> string) \<Rightarrow> exn + args" where
  "parse_args given =
     (case (case given ''--port'' of None \<Rightarrow> Inr 9000 | Some v \<Rightarrow> int_str v) of
        Inl x \<Rightarrow> Inl (SystemExit 2)
      | Inr p \<Rightarrow>
          Inr \<lparr>args_host = (case given ''--host'' of None \<Rightarrow> ''0.0.0.0'' | Some v \<Rightarrow> v),
               args_port = p,
               args_endpoint = (case given ''--endpoint'' of None \<Rightarrow> ''/logs'' | Some v \<Rightarrow> v)\<rparr>)"

subsection \<open>Records and sample inputs\<close>

text \<open>
  The newline-terminated record of a body, in the words of the specification: the body,
  followed by one newline byte unless its last byte is a newline already.
\<close>

definition terminated :: "bytes \<Rightarrow> bytes" where
  "terminated B = B @ (if B \<noteq> [] \<and> last B = CHR 0x0A then [] else [CHR 0x0A])"

text \<open>
  The handler object for a POST request that the HTTP library accepts: the request target
  as the client sent it, from which the library sets \<open>self.path\<close>, the value of the
  \<open>Content-Length\<close> header if there is one, and the bytes that follow the headers on the
  connection, which the client keeps open. The samples run on an interpreter that can
  allocate a read buffer of up to 65536 bytes.
\<close>

definition request :: "string \<Rightarrow> string option \<Rightarrow> bytes \<Rightarrow> handler" where
  "request target cl body =
     \<lparr>path = parse_path target,
      headers = (\<lambda>name. if name = ''Content-Length'' then cl else None),
      rfile = \<lparr>pending = body, eof = False, alloc_max = 65536\<rparr>,
      wfile = []\<rparr>"

text \<open>
  An environment whose only file is the log file, if it has any: its content, whether it
  can be opened for writing, and the room left on the disk.
\<close>

definition log_env :: "bytes option \<Rightarrow> bool \<Rightarrow> nat \<Rightarrow> env" where
  "log_env c w k =
     \<lparr>files = (\<lambda>name. if name = LOG_FILE then c else None),
      writable = (\<lambda>name. w),
      disk_free = k\<rparr>"

section \<open>Properties\<close>

text \<open>The equations that evaluate the reading of a body on a sample request.\<close>

lemmas eval_defs = read_body_def request_def parse_path_def headers_get_def int_py_def
  int_str_def strip_sign_def is_space_def is_digit_def decimal_def digit_value_def
  max_str_digits_def rfile_read_def ssize_max_def

subsection \<open>The append to the log file\<close>

lemma endswith_single: "endswith bs [c] \<longleftrightarrow> bs \<noteq> [] \<and> last bs = c"
  by (cases bs rule: rev_cases) (simp_all add: endswith_def)

lemma length_terminated:
  "length (terminated B) = length B + (if B \<noteq> [] \<and> last B = CHR 0x0A then 0 else 1)"
  by (simp add: terminated_def)

lemma append_log_ok:
  assumes "writable e LOG_FILE" and "length (terminated B) \<le> disk_free e"
  shows "append_log e B =
    (Returned (),
     e\<lparr>files := (files e)(LOG_FILE \<mapsto> content e LOG_FILE @ terminated B),
       disk_free := disk_free e - length (terminated B)\<rparr>)"
  using assms
  by (auto simp: append_log_def open_ab_def file_write_def endswith_single terminated_def
      content_def split: if_splits)

lemma append_log_fail:
  assumes "\<not> writable e LOG_FILE \<or> disk_free e < length (terminated B)"
  shows "fst (append_log e B) = Raised OSError"
  using assms
  by (auto simp: append_log_def open_ab_def file_write_def endswith_single terminated_def
      split: if_splits)

lemma append_log_prefix:
  "prefix (content e LOG_FILE) (content (snd (append_log e B)) LOG_FILE)"
  by (auto simp: append_log_def open_ab_def file_write_def content_def)

lemma append_log_other:
  "name \<noteq> LOG_FILE \<Longrightarrow> files (snd (append_log e B)) name = files e name"
  by (auto simp: append_log_def open_ab_def file_write_def)

lemma read_body_wfile [simp]: "wfile (snd (read_body self)) = wfile self"
  by (auto simp: read_body_def split: sum.splits prod.splits)

lemma do_POST_ok:
  assumes "path self = endpoint" and "read_body self = (Returned B, self1)"
    and "writable e LOG_FILE" and "length (terminated B) \<le> disk_free e"
  shows "do_POST endpoint self e =
    (Returned (), end_headers (send_response self1 204),
     e\<lparr>files := (files e)(LOG_FILE \<mapsto> content e LOG_FILE @ terminated B),
       disk_free := disk_free e - length (terminated B)\<rparr>)"
  using assms by (simp add: do_POST_def append_log_ok)

text \<open>
  C1. A POST to the configured endpoint whose body the handler reads as \<open>B\<close>, with the log
  file open for writing and room on the disk for the record: afterwards the log file is
  its old content followed by \<open>B\<close>, unchanged, and by one newline byte exactly when \<open>B\<close> does
  not end with a newline already.
\<close>

theorem post_appends_terminated_body:
  assumes "path self = endpoint"
    and "fst (read_body self) = Returned B"
    and "writable e LOG_FILE"
    and "length B + (if B \<noteq> [] \<and> last B = CHR 0x0A then 0 else 1) \<le> disk_free e"
  shows "content (snd (snd (do_POST endpoint self e))) LOG_FILE =
    content e LOG_FILE @ B @ (if B \<noteq> [] \<and> last B = CHR 0x0A then [] else [CHR 0x0A])"
proof -
  obtain self1 where rb: "read_body self = (Returned B, self1)"
    using assms(2) by (cases "read_body self") simp
  have room: "length (terminated B) \<le> disk_free e"
    using assms(4) by (simp add: length_terminated)
  show ?thesis
    using do_POST_ok [OF assms(1) rb assms(3) room] by (simp add: terminated_def content_def)
qed

text \<open>
  The first two scenarios of the specification: \<open>hello\<close> gains a newline in a new file, and
  \<open>world\<close> with its own newline is appended as it is.
\<close>

theorem post_appends_terminated_body_witness:
  "content (snd (snd (do_POST ''/logs'' (request ''/logs'' (Some ''5'') ''hello'')
      (log_env None True 100)))) LOG_FILE = ''hello'' @ [CHR 0x0A]
   \<and> content (snd (snd (do_POST ''/logs'' (request ''/logs'' (Some ''6'') (''world'' @ [CHR 0x0A]))
      (log_env (Some (''hello'' @ [CHR 0x0A])) True 100)))) LOG_FILE
     = ''hello'' @ [CHR 0x0A] @ ''world'' @ [CHR 0x0A]"
proof -
  have a: "fst (read_body (request ''/logs'' (Some ''5'') ''hello'')) = Returned ''hello''"
    by (simp add: read_body_def request_def parse_path_def headers_get_def int_py_def int_str_def
        strip_sign_def is_space_def is_digit_def decimal_def digit_value_def
        max_str_digits_def rfile_read_def ssize_max_def)
  have b: "fst (read_body (request ''/logs'' (Some ''6'') (''world'' @ [CHR 0x0A])))
      = Returned (''world'' @ [CHR 0x0A])"
    by (simp add: read_body_def request_def parse_path_def headers_get_def int_py_def int_str_def
        strip_sign_def is_space_def is_digit_def decimal_def digit_value_def
        max_str_digits_def rfile_read_def ssize_max_def)
  show ?thesis
    using post_appends_terminated_body [OF _ a, of "''/logs''" "log_env None True 100"]
      post_appends_terminated_body [OF _ b, of "''/logs''"
        "log_env (Some (''hello'' @ [CHR 0x0A])) True 100"]
    by (simp add: request_def parse_path_def log_env_def content_def)
qed

subsection \<open>The response\<close>

lemma statuses_append: "statuses (xs @ ys) = statuses xs @ statuses ys"
  by (induction xs rule: statuses.induct) simp_all

lemma response_body_append: "response_body (xs @ ys) = response_body xs @ response_body ys"
  by (induction xs rule: response_body.induct) simp_all

lemma respond_wfile:
  "wfile (end_headers (send_response self code)) = wfile self @ [Send_response code, End_headers]"
  by (simp add: end_headers_def send_response_def)

lemma do_POST_other:
  "path self \<noteq> endpoint \<Longrightarrow>
   do_POST endpoint self e =
     (Returned (), self\<lparr>wfile := wfile self @ [Send_response 404, End_headers]\<rparr>, e)"
  by (simp add: do_POST_def end_headers_def send_response_def)

text \<open>
  C2. A POST to a path other than the configured endpoint returns after \<open>send_response(404)\<close>
  and \<open>end_headers()\<close>: the status is 404, nothing is written as a response body, nothing is
  read from the connection, and the environment, with every file in it, is the one before.
\<close>

theorem other_path_not_found:
  assumes "path self \<noteq> endpoint"
  shows "do_POST endpoint self e =
      (Returned (), self\<lparr>wfile := wfile self @ [Send_response 404, End_headers]\<rparr>, e)
    \<and> statuses (wfile (fst (snd (do_POST endpoint self e)))) = statuses (wfile self) @ [404]
    \<and> response_body (wfile (fst (snd (do_POST endpoint self e)))) = response_body (wfile self)
    \<and> files (snd (snd (do_POST endpoint self e))) = files e"
  using assms by (simp add: do_POST_other statuses_append response_body_append)

text \<open>Scenario 3 of the specification: \<open>x\<close> posted to \<open>/other\<close>.\<close>

theorem other_path_not_found_witness:
  "do_POST ''/logs'' (request ''/other'' (Some ''1'') ''x'')
      (log_env (Some (''hello'' @ [CHR 0x0A] @ ''world'' @ [CHR 0x0A])) True 100) =
     (Returned (),
      (request ''/other'' (Some ''1'') ''x'')\<lparr>wfile := [Send_response 404, End_headers]\<rparr>,
      log_env (Some (''hello'' @ [CHR 0x0A] @ ''world'' @ [CHR 0x0A])) True 100)
   \<and> content (snd (snd (do_POST ''/logs'' (request ''/other'' (Some ''1'') ''x'')
      (log_env (Some (''hello'' @ [CHR 0x0A] @ ''world'' @ [CHR 0x0A])) True 100)))) LOG_FILE
     = ''hello'' @ [CHR 0x0A] @ ''world'' @ [CHR 0x0A]"
  using other_path_not_found [of "request ''/other'' (Some ''1'') ''x''" "''/logs''"
      "log_env (Some (''hello'' @ [CHR 0x0A] @ ''world'' @ [CHR 0x0A])) True 100"]
  by (simp add: request_def parse_path_def log_env_def content_def)

subsection \<open>Requests in sequence\<close>

lemma do_POST_env:
  assumes "path self = endpoint" and "fst (read_body self) = Returned B"
    and "writable e LOG_FILE" and "length (terminated B) \<le> disk_free e"
  shows "fst (do_POST endpoint self e) = Returned ()"
    and "snd (snd (do_POST endpoint self e)) =
      e\<lparr>files := (files e)(LOG_FILE \<mapsto> content e LOG_FILE @ terminated B),
        disk_free := disk_free e - length (terminated B)\<rparr>"
proof -
  obtain self1 where rb: "read_body self = (Returned B, self1)"
    using assms(2) by (cases "read_body self") simp
  show "fst (do_POST endpoint self e) = Returned ()"
    and "snd (snd (do_POST endpoint self e)) =
      e\<lparr>files := (files e)(LOG_FILE \<mapsto> content e LOG_FILE @ terminated B),
        disk_free := disk_free e - length (terminated B)\<rparr>"
    using do_POST_ok [OF assms(1) rb assms(3,4)] by simp_all
qed

text \<open>
  C3. Any number of requests handled one after the other, each a POST to the configured
  endpoint whose body the handler reads, with the log file open for writing and room on the
  disk for all the records: every request returns, and the log file ends as its initial
  content followed by the newline-terminated records in the order of arrival.
\<close>

theorem sequential_posts_concatenate:
  assumes "list_all2 (\<lambda>self B. path self = endpoint \<and> fst (read_body self) = Returned B) reqs Bs"
    and "writable e LOG_FILE"
    and "length (concat (map terminated Bs)) \<le> disk_free e"
  shows "content (snd (serve (make_handler endpoint) reqs e)) LOG_FILE =
      content e LOG_FILE @ concat (map terminated Bs)
    \<and> map fst (fst (serve (make_handler endpoint) reqs e)) = replicate (length reqs) (Returned ())"
  using assms
proof (induction reqs Bs arbitrary: e rule: list_all2_induct)
  case Nil
  then show ?case by simp
next
  case (Cons self reqs B Bs)
  let ?e1 = "e\<lparr>files := (files e)(LOG_FILE \<mapsto> content e LOG_FILE @ terminated B),
        disk_free := disk_free e - length (terminated B)\<rparr>"
  from Cons.hyps(1) have p: "path self = endpoint" and rb: "fst (read_body self) = Returned B"
    by simp_all
  from Cons.prems have room: "length (terminated B) \<le> disk_free e"
    and rest: "length (concat (map terminated Bs)) \<le> disk_free ?e1"
    by simp_all
  have w1: "writable ?e1 LOG_FILE" using Cons.prems(1) by simp
  obtain self1 where step: "do_POST endpoint self e = (Returned (), self1, ?e1)"
    using do_POST_env [OF p rb Cons.prems(1) room]
    by (cases "do_POST endpoint self e") auto
  have c1: "content ?e1 LOG_FILE = content e LOG_FILE @ terminated B"
    by (simp add: content_def)
  from Cons.IH [OF w1 rest] step c1 show ?case
    by (auto simp: make_handler_def split: prod.splits)
qed

text \<open>Scenarios 1 and 2 in sequence, on a log file that does not exist yet.\<close>

theorem sequential_posts_concatenate_witness:
  "content (snd (serve (make_handler ''/logs'')
       [request ''/logs'' (Some ''5'') ''hello'',
        request ''/logs'' (Some ''6'') (''world'' @ [CHR 0x0A])]
       (log_env None True 100))) LOG_FILE = ''hello'' @ [CHR 0x0A] @ ''world'' @ [CHR 0x0A]"
proof -
  have a: "fst (read_body (request ''/logs'' (Some ''5'') ''hello'')) = Returned ''hello''"
    by (simp add: eval_defs)
  have b: "fst (read_body (request ''/logs'' (Some ''6'') (''world'' @ [CHR 0x0A])))
      = Returned (''world'' @ [CHR 0x0A])"
    by (simp add: eval_defs)
  have c: "path (request ''/logs'' (Some ''5'') ''hello'') = ''/logs''"
    "path (request ''/logs'' (Some ''6'') (''world'' @ [CHR 0x0A])) = ''/logs''"
    by (simp_all add: request_def parse_path_def)
  show ?thesis
    using sequential_posts_concatenate [of "''/logs''"
        "[request ''/logs'' (Some ''5'') ''hello'',
          request ''/logs'' (Some ''6'') (''world'' @ [CHR 0x0A])]"
        "[''hello'', ''world'' @ [CHR 0x0A]]" "log_env None True 100"] a b c
    by (simp add: log_env_def content_def terminated_def)
qed

subsection \<open>The status of an accepted request\<close>

text \<open>
  C4, as the specification has it, promises 204 for any \<open>Content-Length\<close>. With the header
  \<open>Content-Length: abc\<close> the call \<open>int('abc')\<close> raises \<open>ValueError\<close>: the handler does not
  return and no status has been sent.
\<close>

theorem any_content_length_204_counterexample:
  "path (request ''/logs'' (Some ''abc'') ''hello'') = ''/logs''
   \<and> fst (do_POST ''/logs'' (request ''/logs'' (Some ''abc'') ''hello'') (log_env None True 100))
     = Raised ValueError
   \<and> statuses (wfile (fst (snd (do_POST ''/logs'' (request ''/logs'' (Some ''abc'') ''hello'')
       (log_env None True 100))))) = []"
  by (simp add: do_POST_def eval_defs)

text \<open>
  C4, amended. A POST to the configured endpoint whose body the handler reads (the header is
  absent or \<open>int\<close> accepts it, and the read returns), with the log file open for writing and
  room on the disk for the record: the handler returns, the status sent is 204, and nothing
  is written as a response body.
\<close>

theorem post_answers_204:
  assumes "path self = endpoint"
    and "fst (read_body self) = Returned B"
    and "writable e LOG_FILE"
    and "length (terminated B) \<le> disk_free e"
  shows "fst (do_POST endpoint self e) = Returned ()
    \<and> wfile (fst (snd (do_POST endpoint self e))) = wfile self @ [Send_response 204, End_headers]
    \<and> statuses (wfile (fst (snd (do_POST endpoint self e)))) = statuses (wfile self) @ [204]
    \<and> response_body (wfile (fst (snd (do_POST endpoint self e)))) = response_body (wfile self)"
proof -
  obtain self1 where rb: "read_body self = (Returned B, self1)"
    using assms(2) by (cases "read_body self") simp
  have "wfile self1 = wfile self"
    using read_body_wfile [of self] rb by simp
  then show ?thesis
    using do_POST_ok [OF assms(1) rb assms(3,4)]
    by (simp add: respond_wfile statuses_append response_body_append)
qed

theorem post_answers_204_witness:
  "fst (do_POST ''/logs'' (request ''/logs'' (Some ''5'') ''hello'') (log_env None True 100))
     = Returned ()
   \<and> wfile (fst (snd (do_POST ''/logs'' (request ''/logs'' (Some ''5'') ''hello'')
        (log_env None True 100)))) = [Send_response 204, End_headers]"
proof -
  have a: "fst (read_body (request ''/logs'' (Some ''5'') ''hello'')) = Returned ''hello''"
    by (simp add: eval_defs)
  show ?thesis
    using post_answers_204 [OF _ a, of "''/logs''" "log_env None True 100"]
    by (simp add: request_def parse_path_def log_env_def terminated_def)
qed

subsection \<open>The body that is read\<close>

lemma int_str_zero: "int_str ''0'' = Inr 0"
  by (simp add: int_str_def strip_sign_def is_space_def is_digit_def decimal_def digit_value_def
      max_str_digits_def)

lemma read_body_absent:
  "headers self ''Content-Length'' = None \<Longrightarrow> read_body self = (Returned [], self)"
  by (simp add: read_body_def headers_get_def int_py_def rfile_read_def ssize_max_def)

lemma read_body_exact:
  assumes "headers self ''Content-Length'' = Some v" and "int_str v = Inr n"
    and "0 \<le> n" and "n \<le> ssize_max - 33" and "nat n \<le> alloc_max (rfile self)"
    and "nat n \<le> length (pending (rfile self))"
  shows "read_body self =
    (Returned (take (nat n) (pending (rfile self))),
     self\<lparr>rfile := (rfile self)\<lparr>pending := drop (nat n) (pending (rfile self))\<rparr>\<rparr>)"
  using assms by (simp add: read_body_def headers_get_def int_py_def rfile_read_def ssize_max_def)

text \<open>
  C5. Without a \<open>Content-Length\<close> header the handler reads no byte and the data are empty.
  With a header that \<open>int\<close> turns into a length \<open>n\<close> (not negative, and a size for which a
  buffer can be had) and a body of at least \<open>n\<close> bytes on the connection, the data are the
  first \<open>n\<close> bytes and the rest stays unread. A POST to the endpoint with \<open>Content-Length: 0\<close>,
  the log file open for writing and room for one byte, is answered 204 and the log file
  gains one newline byte.
\<close>

theorem content_length_bytes_read:
  "(headers self ''Content-Length'' = None \<longrightarrow> read_body self = (Returned [], self))
   \<and> (headers self ''Content-Length'' = Some v \<and> int_str v = Inr n \<and> 0 \<le> n
        \<and> n \<le> ssize_max - 33 \<and> nat n \<le> alloc_max (rfile self)
        \<and> nat n \<le> length (pending (rfile self)) \<longrightarrow>
      read_body self =
        (Returned (take (nat n) (pending (rfile self))),
         self\<lparr>rfile := (rfile self)\<lparr>pending := drop (nat n) (pending (rfile self))\<rparr>\<rparr>)
      \<and> length (take (nat n) (pending (rfile self))) = nat n)
   \<and> (path self = endpoint \<and> headers self ''Content-Length'' = Some ''0''
        \<and> writable e LOG_FILE \<and> 1 \<le> disk_free e \<longrightarrow>
      fst (do_POST endpoint self e) = Returned ()
      \<and> statuses (wfile (fst (snd (do_POST endpoint self e)))) = statuses (wfile self) @ [204]
      \<and> content (snd (snd (do_POST endpoint self e))) LOG_FILE = content e LOG_FILE @ [CHR 0x0A])"
proof (intro conjI impI)
  assume "headers self ''Content-Length'' = None"
  then show "read_body self = (Returned [], self)" by (rule read_body_absent)
next
  assume a: "headers self ''Content-Length'' = Some v \<and> int_str v = Inr n \<and> 0 \<le> n
        \<and> n \<le> ssize_max - 33 \<and> nat n \<le> alloc_max (rfile self)
        \<and> nat n \<le> length (pending (rfile self))"
  then show "read_body self =
        (Returned (take (nat n) (pending (rfile self))),
         self\<lparr>rfile := (rfile self)\<lparr>pending := drop (nat n) (pending (rfile self))\<rparr>\<rparr>)"
    by (simp add: read_body_exact)
  from a show "length (take (nat n) (pending (rfile self))) = nat n" by simp
next
  assume a: "path self = endpoint \<and> headers self ''Content-Length'' = Some ''0''
        \<and> writable e LOG_FILE \<and> 1 \<le> disk_free e"
  have rb: "read_body self = (Returned [], self)"
    using a read_body_exact [of self "''0''" 0] by (simp add: int_str_zero ssize_max_def)
  have room: "length (terminated []) \<le> disk_free e"
    using a by (simp add: terminated_def)
  have step: "do_POST endpoint self e =
    (Returned (), end_headers (send_response self 204),
     e\<lparr>files := (files e)(LOG_FILE \<mapsto> content e LOG_FILE @ terminated []),
       disk_free := disk_free e - length (terminated [])\<rparr>)"
    using a do_POST_ok [OF _ rb _ room, of endpoint] by simp
  show "fst (do_POST endpoint self e) = Returned ()" using step by simp
  show "statuses (wfile (fst (snd (do_POST endpoint self e)))) = statuses (wfile self) @ [204]"
    using step by (simp add: respond_wfile statuses_append)
  show "content (snd (snd (do_POST endpoint self e))) LOG_FILE = content e LOG_FILE @ [CHR 0x0A]"
    using step by (simp add: content_def terminated_def)
qed

text \<open>
  No header and five bytes on the connection; \<open>Content-Length: 3\<close> and the same five bytes;
  scenario 4 of the specification, an empty body with \<open>Content-Length: 0\<close>.
\<close>

theorem content_length_bytes_read_witness:
  "read_body (request ''/logs'' None ''hello'') = (Returned [], request ''/logs'' None ''hello'')
   \<and> fst (read_body (request ''/logs'' (Some ''3'') ''hello'')) = Returned ''hel''
   \<and> pending (rfile (snd (read_body (request ''/logs'' (Some ''3'') ''hello'')))) = ''lo''
   \<and> fst (do_POST ''/logs'' (request ''/logs'' (Some ''0'') [])
        (log_env (Some (''hello'' @ [CHR 0x0A])) True 100)) = Returned ()
   \<and> statuses (wfile (fst (snd (do_POST ''/logs'' (request ''/logs'' (Some ''0'') [])
        (log_env (Some (''hello'' @ [CHR 0x0A])) True 100))))) = [204]
   \<and> content (snd (snd (do_POST ''/logs'' (request ''/logs'' (Some ''0'') [])
        (log_env (Some (''hello'' @ [CHR 0x0A])) True 100)))) LOG_FILE
      = ''hello'' @ [CHR 0x0A] @ [CHR 0x0A]"
proof -
  have three: "int_str ''3'' = Inr 3"
    by (simp add: int_str_def strip_sign_def is_space_def is_digit_def decimal_def
        digit_value_def max_str_digits_def)
  show ?thesis
    using content_length_bytes_read [of "request ''/logs'' None ''hello''" "''3''" 3 "''/logs''"
        "log_env (Some (''hello'' @ [CHR 0x0A])) True 100"]
      content_length_bytes_read [of "request ''/logs'' (Some ''3'') ''hello''" "''3''" 3 "''/logs''"
        "log_env (Some (''hello'' @ [CHR 0x0A])) True 100"]
      content_length_bytes_read [of "request ''/logs'' (Some ''0'') []" "''0''" 0 "''/logs''"
        "log_env (Some (''hello'' @ [CHR 0x0A])) True 100"]
      three
    by (simp add: request_def parse_path_def log_env_def content_def ssize_max_def)
qed

subsection \<open>The log file over a request\<close>

lemma do_POST_prefix:
  "prefix (content e LOG_FILE) (content (snd (snd (do_POST endpoint self e))) LOG_FILE)"
proof (cases "path self = endpoint")
  case False
  then show ?thesis by (simp add: do_POST_other)
next
  case True
  show ?thesis
  proof (cases "read_body self")
    case (Pair r self1)
    show ?thesis
    proof (cases r)
      case (Returned data)
      then show ?thesis
        using True Pair append_log_prefix [of e data]
        by (cases "append_log e data") (auto simp: do_POST_def split: result.splits)
    qed (use True Pair in \<open>simp_all add: do_POST_def\<close>)
  qed
qed

lemma do_POST_other_files:
  assumes "name \<noteq> LOG_FILE"
  shows "files (snd (snd (do_POST endpoint self e))) name = files e name"
proof (cases "path self = endpoint")
  case False
  then show ?thesis by (simp add: do_POST_other)
next
  case True
  show ?thesis
  proof (cases "read_body self")
    case (Pair r self1)
    show ?thesis
    proof (cases r)
      case (Returned data)
      then show ?thesis
        using True Pair append_log_other [OF assms, of e data]
        by (cases "append_log e data") (auto simp: do_POST_def split: result.splits)
    qed (use True Pair in \<open>simp_all add: do_POST_def\<close>)
  qed
qed

lemma append_log_files_irrelevant:
  "fst (append_log (e\<lparr>files := fs\<rparr>) B) = fst (append_log e B)"
  by (auto simp: append_log_def open_ab_def file_write_def)

lemma do_POST_files_irrelevant:
  "fst (do_POST endpoint self (e\<lparr>files := fs\<rparr>)) = fst (do_POST endpoint self e)
   \<and> fst (snd (do_POST endpoint self (e\<lparr>files := fs\<rparr>))) = fst (snd (do_POST endpoint self e))"
proof (cases "path self = endpoint")
  case False
  then show ?thesis by (simp add: do_POST_other)
next
  case True
  show ?thesis
  proof (cases "read_body self")
    case (Pair r self1)
    show ?thesis
    proof (cases r)
      case (Returned data)
      then show ?thesis
        using True Pair append_log_files_irrelevant [where e = e and fs = fs and B = data]
        by (cases "append_log e data"; cases "append_log (e\<lparr>files := fs\<rparr>) data")
          (auto simp: do_POST_def split: result.splits)
    qed (use True Pair in \<open>simp_all add: do_POST_def\<close>)
  qed
qed

lemma append_log_creates:
  "writable e LOG_FILE \<Longrightarrow> files (snd (append_log e B)) LOG_FILE \<noteq> None"
  by (auto simp: append_log_def open_ab_def file_write_def)

lemma do_POST_creates:
  assumes "path self = endpoint" and "fst (read_body self) = Returned B" and "writable e LOG_FILE"
  shows "files (snd (snd (do_POST endpoint self e))) LOG_FILE \<noteq> None"
proof -
  obtain self1 where rb: "read_body self = (Returned B, self1)"
    using assms(2) by (cases "read_body self") simp
  show ?thesis
    using assms(1) rb append_log_creates [OF assms(3), of B]
    by (cases "append_log e B") (auto simp: do_POST_def split: result.splits)
qed

text \<open>
  C6. Whatever the request and the environment, the content of the log file before the call
  is a prefix of its content after the call, and no other file changes. The file is not
  read: with any other files in place of the present ones, the result of the call and the
  handler object after it are the same. When the body of a POST to the endpoint has been
  read and the file can be opened for writing, the file exists afterwards.
\<close>

theorem log_file_append_only:
  "prefix (content e LOG_FILE) (content (snd (snd (do_POST endpoint self e))) LOG_FILE)
   \<and> (name \<noteq> LOG_FILE \<longrightarrow> files (snd (snd (do_POST endpoint self e))) name = files e name)
   \<and> fst (do_POST endpoint self (e\<lparr>files := fs\<rparr>)) = fst (do_POST endpoint self e)
   \<and> fst (snd (do_POST endpoint self (e\<lparr>files := fs\<rparr>))) = fst (snd (do_POST endpoint self e))
   \<and> (path self = endpoint \<and> fst (read_body self) = Returned B \<and> writable e LOG_FILE \<longrightarrow>
        files (snd (snd (do_POST endpoint self e))) LOG_FILE \<noteq> None)"
  using do_POST_prefix [of e endpoint self] do_POST_other_files [of name endpoint self e]
    do_POST_files_irrelevant [where endpoint = endpoint and self = self and e = e and fs = fs] do_POST_creates [of self endpoint B e]
  by blast

text \<open>A first POST, with no log file yet and no other file.\<close>

theorem log_file_append_only_witness:
  "prefix [] (content (snd (snd (do_POST ''/logs'' (request ''/logs'' (Some ''5'') ''hello'')
      (log_env None True 100)))) LOG_FILE)
   \<and> files (snd (snd (do_POST ''/logs'' (request ''/logs'' (Some ''5'') ''hello'')
      (log_env None True 100)))) ''other.txt'' = None
   \<and> files (snd (snd (do_POST ''/logs'' (request ''/logs'' (Some ''5'') ''hello'')
      (log_env None True 100)))) LOG_FILE \<noteq> None"
proof -
  have a: "fst (read_body (request ''/logs'' (Some ''5'') ''hello'')) = Returned ''hello''"
    by (simp add: eval_defs)
  show ?thesis
    using log_file_append_only [where e = "log_env None True 100" and endpoint = "''/logs''"
        and self = "request ''/logs'' (Some ''5'') ''hello''" and name = "''other.txt''"
        and B = "''hello''"] a
    by (simp add: request_def parse_path_def log_env_def content_def LOG_FILE_def)
qed

subsection \<open>Failures\<close>

text \<open>
  C7. A POST to the endpoint whose body has been read, when the log file cannot be opened
  for writing or the disk has no room for the whole record: \<open>do_POST\<close> ends with the
  \<open>OSError\<close> of the failed call, and has sent nothing, so no status 204.
\<close>

theorem write_failure_propagates:
  assumes "path self = endpoint"
    and "fst (read_body self) = Returned B"
    and "\<not> writable e LOG_FILE \<or> disk_free e < length (terminated B)"
  shows "fst (do_POST endpoint self e) = Raised OSError
    \<and> wfile (fst (snd (do_POST endpoint self e))) = wfile self
    \<and> statuses (wfile (fst (snd (do_POST endpoint self e)))) = statuses (wfile self)"
proof -
  obtain self1 where rb: "read_body self = (Returned B, self1)"
    using assms(2) by (cases "read_body self") simp
  have w: "wfile self1 = wfile self"
    using read_body_wfile [of self] rb by simp
  show ?thesis
    using assms(1) rb w append_log_fail [OF assms(3)]
    by (cases "append_log e B") (auto simp: do_POST_def split: result.splits)
qed

text \<open>A log file that cannot be opened, and a disk with room for three bytes only.\<close>

theorem write_failure_propagates_witness:
  "fst (do_POST ''/logs'' (request ''/logs'' (Some ''5'') ''hello'') (log_env None False 100))
     = Raised OSError
   \<and> wfile (fst (snd (do_POST ''/logs'' (request ''/logs'' (Some ''5'') ''hello'')
       (log_env None False 100)))) = []
   \<and> fst (do_POST ''/logs'' (request ''/logs'' (Some ''5'') ''hello'') (log_env None True 3))
     = Raised OSError
   \<and> wfile (fst (snd (do_POST ''/logs'' (request ''/logs'' (Some ''5'') ''hello'')
       (log_env None True 3)))) = []"
proof -
  have a: "fst (read_body (request ''/logs'' (Some ''5'') ''hello'')) = Returned ''hello''"
    by (simp add: eval_defs)
  show ?thesis
    using write_failure_propagates [OF _ a, of "''/logs''" "log_env None False 100"]
      write_failure_propagates [OF _ a, of "''/logs''" "log_env None True 3"]
    by (simp add: request_def parse_path_def log_env_def terminated_def)
qed

subsection \<open>The command line\<close>

text \<open>
  C8. With no option given the arguments are host \<open>0.0.0.0\<close>, port 9000 (an integer) and
  endpoint \<open>/logs\<close>; and whatever the other options are, an option that is not given has its
  default. Without \<open>--port\<close> no conversion can fail, so the arguments exist.
\<close>

theorem cli_defaults:
  "parse_args Map.empty = Inr \<lparr>args_host = ''0.0.0.0'', args_port = 9000, args_endpoint = ''/logs''\<rparr>
   \<and> (given ''--host'' = None \<and> parse_args given = Inr a \<longrightarrow> args_host a = ''0.0.0.0'')
   \<and> (given ''--port'' = None \<longrightarrow> (\<exists>a. parse_args given = Inr a \<and> args_port a = 9000))
   \<and> (given ''--endpoint'' = None \<and> parse_args given = Inr a \<longrightarrow> args_endpoint a = ''/logs'')"
  by (auto simp: parse_args_def split: sum.splits option.splits)

text \<open>Only \<open>--port\<close> given, and only \<open>--host\<close> given.\<close>

theorem cli_defaults_witness:
  "parse_args [''--port'' \<mapsto> ''8080''] =
     Inr \<lparr>args_host = ''0.0.0.0'', args_port = 8080, args_endpoint = ''/logs''\<rparr>
   \<and> (\<exists>a. parse_args [''--host'' \<mapsto> ''127.0.0.1''] = Inr a \<and> args_port a = 9000)"
proof -
  have p: "int_str ''8080'' = Inr 8080"
    by (simp add: int_str_def strip_sign_def is_space_def is_digit_def decimal_def
        digit_value_def max_str_digits_def)
  have a: "parse_args [''--port'' \<mapsto> ''8080''] =
     Inr \<lparr>args_host = ''0.0.0.0'', args_port = 8080, args_endpoint = ''/logs''\<rparr>"
    by (simp add: parse_args_def p)
  show ?thesis
    using a cli_defaults [of "[''--port'' \<mapsto> ''8080'']"
        "\<lparr>args_host = ''0.0.0.0'', args_port = 8080, args_endpoint = ''/logs''\<rparr>"]
      cli_defaults [of "[''--host'' \<mapsto> ''127.0.0.1'']"]
    by simp
qed

subsection \<open>A header that is not an integer\<close>

text \<open>
  C9. A POST to the endpoint with a \<open>Content-Length\<close> header that \<open>int\<close> refuses: \<open>do_POST\<close>
  ends with the exception of \<open>int\<close>. The handler object is as before, so no byte of the body
  has been read and no status, 204 or 404, has been sent; the environment is as before, so
  nothing has been appended to the log file.
\<close>

theorem bad_content_length_raises:
  assumes "path self = endpoint"
    and "headers self ''Content-Length'' = Some v"
    and "int_str v = Inl x"
  shows "do_POST endpoint self e = (Raised x, self, e)"
  using assms by (simp add: do_POST_def read_body_def headers_get_def int_py_def)

text \<open>The header \<open>Content-Length: 12a\<close>.\<close>

theorem bad_content_length_raises_witness:
  "int_str ''12a'' = Inl ValueError
   \<and> do_POST ''/logs'' (request ''/logs'' (Some ''12a'') ''hello'') (log_env None True 100) =
     (Raised ValueError, request ''/logs'' (Some ''12a'') ''hello'', log_env None True 100)
   \<and> pending (rfile (request ''/logs'' (Some ''12a'') ''hello'')) = ''hello''
   \<and> wfile (request ''/logs'' (Some ''12a'') ''hello'') = []
   \<and> files (log_env None True 100) LOG_FILE = None"
proof -
  have p: "int_str ''12a'' = Inl ValueError"
    by (simp add: int_str_def strip_sign_def is_space_def is_digit_def)
  show ?thesis
    using p bad_content_length_raises [of "request ''/logs'' (Some ''12a'') ''hello''" "''/logs''"
        "''12a''" ValueError "log_env None True 100"]
    by (simp add: request_def parse_path_def log_env_def)
qed

subsection \<open>The comparison of the path\<close>





end
